theory Spec2Isabelle
  imports Complex_Main "HOL-Library.AList"
begin

section \<open>JavaScript values\<close>

text \<open>
  The program is JavaScript: a field of a layer description may hold any value, or be
  missing. The values that a model, an options record and the program's own literals are
  made of are embedded as the datatype \<open>jsval\<close>.

  Numbers are the rationals, extended with \<open>NaN\<close> and the two infinities. This idealises
  IEEE doubles: arithmetic is exact (no rounding, no overflow) and there is no negative
  zero, so \<open>Fin 0\<close> stands for the positive zero. Division of a non-zero number by zero
  gives an infinity, \<open>0 / 0\<close> and every operation on \<open>NaN\<close> give \<open>NaN\<close>, and every
  comparison with \<open>NaN\<close> is false, as in the language.
\<close>

datatype jsnum = Fin rat | NaN | PInf | NInf

datatype jsval =
    Undefined
  | Null
  | Bool bool
  | Num jsnum
  | Str string
  | Obj "(string \<times> jsval) list"

text \<open>
  An error is a value. \<open>TypeError\<close> is the exception the language throws when a property
  of \<open>undefined\<close> or \<open>null\<close> is read, when such a value is given to \<open>Object.keys\<close>, or
  when something that is not a function is called. \<open>Unsupported\<close> is not a behaviour of
  the program: it marks the coercions that this embedding leaves out (a string or a
  record used as a number, \<open>Object.keys\<close> of a boolean, number or string, whose result
  depends on the language edition). No theorem below speaks about a run that meets one.
\<close>

datatype error = TypeError | Unsupported

fun bindE :: "error + 'a \<Rightarrow> ('a \<Rightarrow> error + 'b) \<Rightarrow> error + 'b" where
  "bindE (Inl e) f = Inl e"
| "bindE (Inr v) f = f v"

subsection \<open>Numbers\<close>

fun num_lt :: "jsnum \<Rightarrow> jsnum \<Rightarrow> bool" where
  "num_lt (Fin a) (Fin b) = (a < b)"
| "num_lt NaN _ = False"
| "num_lt _ NaN = False"
| "num_lt PInf _ = False"
| "num_lt _ PInf = True"
| "num_lt _ NInf = False"
| "num_lt NInf _ = True"

fun num_neg :: "jsnum \<Rightarrow> jsnum" where
  "num_neg (Fin a) = Fin (- a)"
| "num_neg NaN = NaN"
| "num_neg PInf = NInf"
| "num_neg NInf = PInf"

fun num_add :: "jsnum \<Rightarrow> jsnum \<Rightarrow> jsnum" where
  "num_add (Fin a) (Fin b) = Fin (a + b)"
| "num_add NaN _ = NaN"
| "num_add _ NaN = NaN"
| "num_add PInf NInf = NaN"
| "num_add NInf PInf = NaN"
| "num_add PInf _ = PInf"
| "num_add NInf _ = NInf"
| "num_add _ PInf = PInf"
| "num_add _ NInf = NInf"

definition num_sub :: "jsnum \<Rightarrow> jsnum \<Rightarrow> jsnum" where
  "num_sub a b = num_add a (num_neg b)"

text \<open>The sign of a number that is not \<open>NaN\<close>: zero counts as positive.\<close>

fun negative :: "jsnum \<Rightarrow> bool" where
  "negative (Fin a) = (a < 0)"
| "negative NInf = True"
| "negative _ = False"

definition inf_of_sign :: "bool \<Rightarrow> jsnum" where
  "inf_of_sign neg = (if neg then NInf else PInf)"

fun num_mul :: "jsnum \<Rightarrow> jsnum \<Rightarrow> jsnum" where
  "num_mul (Fin a) (Fin b) = Fin (a * b)"
| "num_mul NaN _ = NaN"
| "num_mul _ NaN = NaN"
| "num_mul (Fin a) b = (if a = 0 then NaN else inf_of_sign (negative (Fin a) \<noteq> negative b))"
| "num_mul a (Fin b) = (if b = 0 then NaN else inf_of_sign (negative a \<noteq> negative (Fin b)))"
| "num_mul a b = inf_of_sign (negative a \<noteq> negative b)"

fun num_div :: "jsnum \<Rightarrow> jsnum \<Rightarrow> jsnum" where
  "num_div (Fin a) (Fin b) =
     (if b \<noteq> 0 then Fin (a / b)
      else if a = 0 then NaN
      else inf_of_sign (a < 0))"
| "num_div NaN _ = NaN"
| "num_div _ NaN = NaN"
| "num_div (Fin a) _ = Fin 0"
| "num_div a (Fin b) = inf_of_sign (negative a \<noteq> negative (Fin b))"
| "num_div _ _ = NaN"

text \<open>\<open>Math.ceil\<close>.\<close>

fun num_ceil :: "jsnum \<Rightarrow> jsnum" where
  "num_ceil (Fin a) = Fin (of_int \<lceil>a\<rceil>)"
| "num_ceil n = n"

subsection \<open>Coercions and operators\<close>

text \<open>\<open>ToNumber\<close>, on the values the embedding covers.\<close>

fun to_number :: "jsval \<Rightarrow> error + jsnum" where
  "to_number Undefined = Inr NaN"
| "to_number Null = Inr (Fin 0)"
| "to_number (Bool b) = Inr (Fin (if b then 1 else 0))"
| "to_number (Num n) = Inr n"
| "to_number (Str s) = Inl Unsupported"
| "to_number (Obj kv) = Inl Unsupported"

text \<open>\<open>ToBoolean\<close>.\<close>

fun truthy :: "jsval \<Rightarrow> bool" where
  "truthy Undefined = False"
| "truthy Null = False"
| "truthy (Bool b) = b"
| "truthy (Num (Fin a)) = (a \<noteq> 0)"
| "truthy (Num NaN) = False"
| "truthy (Num _) = True"
| "truthy (Str s) = (s \<noteq> [])"
| "truthy (Obj kv) = True"

text \<open>\<open>a || b\<close>.\<close>

definition js_or :: "jsval \<Rightarrow> jsval \<Rightarrow> jsval" where
  "js_or a b = (if truthy a then a else b)"

text \<open>
  The binary operators: the left operand is converted first. \<open>a + b\<close> is addition only
  when neither operand is a string or a record, which is where \<open>to_number\<close> is defined.
\<close>

definition js_arith :: "(jsnum \<Rightarrow> jsnum \<Rightarrow> jsnum) \<Rightarrow> jsval \<Rightarrow> jsval \<Rightarrow> error + jsnum" where
  "js_arith f a b = bindE (to_number a) (\<lambda>x. bindE (to_number b) (\<lambda>y. Inr (f x y)))"

definition js_lt :: "jsval \<Rightarrow> jsval \<Rightarrow> error + bool" where
  "js_lt a b = bindE (to_number a) (\<lambda>x. bindE (to_number b) (\<lambda>y. Inr (num_lt x y)))"

abbreviation js_add :: "jsval \<Rightarrow> jsval \<Rightarrow> error + jsnum" where
  "js_add \<equiv> js_arith num_add"

abbreviation js_sub :: "jsval \<Rightarrow> jsval \<Rightarrow> error + jsnum" where
  "js_sub \<equiv> js_arith num_sub"

abbreviation js_mul :: "jsval \<Rightarrow> jsval \<Rightarrow> error + jsnum" where
  "js_mul \<equiv> js_arith num_mul"

abbreviation js_div :: "jsval \<Rightarrow> jsval \<Rightarrow> error + jsnum" where
  "js_div \<equiv> js_arith num_div"

subsection \<open>Records\<close>

text \<open>
  A record is an association list, in the order in which its keys were added. A key that
  is not there reads as \<open>undefined\<close>; assigning to a key replaces its value in place or
  adds the key at the end, which is \<open>AList.update\<close>.
\<close>

type_synonym obj = "(string \<times> jsval) list"

definition lookup :: "obj \<Rightarrow> string \<Rightarrow> jsval" where
  "lookup kv k = (case map_of kv k of None \<Rightarrow> Undefined | Some v \<Rightarrow> v)"

definition hasOwnProperty :: "obj \<Rightarrow> string \<Rightarrow> bool" where
  "hasOwnProperty kv k = (k \<in> fst ` set kv)"

text \<open>
  \<open>v.k\<close>: reading a property of \<open>undefined\<close> or \<open>null\<close> throws. A boolean, a number or a
  string has none of the properties that the program reads (\<open>thickness\<close>, \<open>offset\<close>,
  \<open>front\<close>, \<open>texture\<close>, \<open>color\<close>, ...), and neither has \<open>Object.prototype\<close>.
\<close>

fun get_prop :: "jsval \<Rightarrow> string \<Rightarrow> error + jsval" where
  "get_prop Undefined k = Inl TypeError"
| "get_prop Null k = Inl TypeError"
| "get_prop (Obj kv) k = Inr (lookup kv k)"
| "get_prop _ k = Inr Undefined"

text \<open>\<open>Object.keys\<close>.\<close>

fun object_keys :: "jsval \<Rightarrow> error + string list" where
  "object_keys Undefined = Inl TypeError"
| "object_keys Null = Inl TypeError"
| "object_keys (Obj kv) = Inr (map fst kv)"
| "object_keys _ = Inl Unsupported"

section \<open>The constructor's options\<close>

text \<open>
  \<^verbatim>\<open>
    instance.options = { background: 0xffffff, debug: false, defaultElement: {...},
                         fps: 30, ... };
    // override default options
    if (options) {
        Object.keys(options).forEach(function (key) {
            instance.options[key] = options[key];
        });
    }
  \<close>
\<close>

definition builtin_defaultElement :: obj where
  "builtin_defaultElement =
     [(''name'', Str ''element''),
      (''constructionPlane'', Num (Fin 90)),
      (''height'', Num (Fin 500)),
      (''width'', Num (Fin 500)),
      (''thickness'', Num (Fin 10)),
      (''color'', Num (Fin 13421772)),
      (''opacity'', Num (Fin 1)),
      (''material'', Null),
      (''transparency'', Num (Fin 1)),
      (''type'', Str ''sheet''),
      (''offset'', Obj [(''top'', Num (Fin 0)), (''left'', Num (Fin 0)),
                        (''bottom'', Num (Fin 0)), (''right'', Num (Fin 0)),
                        (''front'', Num (Fin 0)), (''back'', Num (Fin 0))])]"

definition builtin_options :: obj where
  "builtin_options =
     [(''background'', Num (Fin 16777215)),
      (''debug'', Bool False),
      (''defaultElement'', Obj builtin_defaultElement),
      (''fps'', Num (Fin 30)),
      (''selectedMaterialColor'', Num (Fin 16776960)),
      (''selectedMaterialOpacity'', Num (Fin (2 / 10))),
      (''showOriginMarker'', Bool True)]"

text \<open>The body of the \<open>forEach\<close>: \<open>instance.options[key] = options[key]\<close>.\<close>

fun override_keys :: "jsval \<Rightarrow> string list \<Rightarrow> obj \<Rightarrow> error + obj" where
  "override_keys options [] acc = Inr acc"
| "override_keys options (key # keys) acc =
     bindE (get_prop options key) (\<lambda>v. override_keys options keys (AList.update key v acc))"

definition override_options :: "jsval \<Rightarrow> error + obj" where
  "override_options options =
     (if truthy options
      then bindE (object_keys options) (\<lambda>keys. override_keys options keys builtin_options)
      else Inr builtin_options)"

section \<open>The model and its defaults\<close>

text \<open>
  A layer is an element (a plain record) or a composite (an array of layers); the program
  tells them apart with \<open>Array.isArray\<close>. The whole model is a layer too: \<open>build\<close> expects
  an array there.
\<close>

datatype layer = Element obj | Composite "layer list"

text \<open>
  \<^verbatim>\<open>
    Object.keys(defaults).forEach(function(key) {
       if (!model.hasOwnProperty(key)) model[key] = defaults[key];
    });
  \<close>
  \<open>model.hasOwnProperty\<close> is looked up on the element itself first: an element with a
  field of that name holds a value there that is not a function, and the call throws.
\<close>

fun element_defaults :: "jsval \<Rightarrow> string list \<Rightarrow> obj \<Rightarrow> error + obj" where
  "element_defaults defaults [] model = Inr model"
| "element_defaults defaults (key # keys) model =
     (if hasOwnProperty model ''hasOwnProperty'' then Inl TypeError
      else if \<not> hasOwnProperty model key
        then bindE (get_prop defaults key) (\<lambda>v.
               element_defaults defaults keys (AList.update key v model))
        else element_defaults defaults keys model)"

text \<open>
  \<open>applyModelDefaults\<close> changes the model in place; here it returns the new model.
  \<open>applyModelDefaults_each\<close> is the \<open>forEach\<close> over an array.
\<close>

fun applyModelDefaults :: "layer \<Rightarrow> jsval \<Rightarrow> error + layer"
  and applyModelDefaults_each :: "layer list \<Rightarrow> jsval \<Rightarrow> error + layer list" where
  "applyModelDefaults (Composite members) defaults =
     bindE (applyModelDefaults_each members defaults) (\<lambda>members'. Inr (Composite members'))"
| "applyModelDefaults (Element model) defaults =
     bindE (object_keys defaults) (\<lambda>keys.
       bindE (element_defaults defaults keys model) (\<lambda>model'. Inr (Element model')))"
| "applyModelDefaults_each [] defaults = Inr []"
| "applyModelDefaults_each (element # rest) defaults =
     bindE (applyModelDefaults element defaults) (\<lambda>element'.
       bindE (applyModelDefaults_each rest defaults) (\<lambda>rest'. Inr (element' # rest')))"

section \<open>Scene objects\<close>

text \<open>
  The objects of the rendering library that the program creates: what the constructors
  were given, the position, the children. A bounding box helper is recorded with the
  object it was computed from, as that object was when the helper was updated. A
  position is set without conversion, and every value the program puts there is the
  result of an arithmetic operator, so a number. Setting the position of an object
  replaces all three of its coordinates.
\<close>

record vec3 =
  px :: jsnum
  py :: jsnum
  pz :: jsnum

definition origin :: vec3 where
  "origin = \<lparr>px = Fin 0, py = Fin 0, pz = Fin 0\<rparr>"

record box_geometry =
  width :: jsval
  height :: jsval
  depth :: jsval

datatype texture = Texture jsval

datatype side = DoubleSide

datatype material =
    MeshBasicMaterial texture side
  | MeshLambertMaterial jsval bool jsval

datatype volume =
    Mesh jsval box_geometry material vec3
  | Object3D vec3 "volume list"
  | BoundingBoxHelper volume jsval vec3

fun position :: "volume \<Rightarrow> vec3" where
  "position (Mesh n g m p) = p"
| "position (Object3D p cs) = p"
| "position (BoundingBoxHelper v c p) = p"

fun set_position :: "vec3 \<Rightarrow> volume \<Rightarrow> volume" where
  "set_position p (Mesh n g m _) = Mesh n g m p"
| "set_position p (Object3D _ cs) = Object3D p cs"
| "set_position p (BoundingBoxHelper v c _) = BoundingBoxHelper v c p"

section \<open>Materials and unit meshes\<close>

text \<open>
  \<^verbatim>\<open>
    this.getMaterial = function (material) {
        var texture;
        if (material && material.texture) {
            try {
                texture = THREE.ImageUtils.loadTexture(material.texture);
                return new THREE.MeshBasicMaterial({map: texture, side: THREE.DoubleSide});
            } catch (e) {
                console.log("ERROR: Could not load material %s", material.texture);
            }
        }
        return new THREE.MeshLambertMaterial({
            color: material.color,
            transparent: true,
            opacity: material.opacity || 1.0
        });
    };
  \<close>
  Whether the library's \<open>loadTexture\<close> returns or throws is not the program's doing: it
  is the parameter \<open>loads\<close>, true where the call returns.
\<close>

definition getMaterial :: "(jsval \<Rightarrow> bool) \<Rightarrow> jsval \<Rightarrow> error + material" where
  "getMaterial loads material =
     bindE (if truthy material then get_prop material ''texture'' else Inr material) (\<lambda>t.
       if truthy t \<and> loads t then Inr (MeshBasicMaterial (Texture t) DoubleSide)
       else bindE (get_prop material ''color'') (\<lambda>c.
              bindE (get_prop material ''opacity'') (\<lambda>opac.
                Inr (MeshLambertMaterial c True (js_or opac (Num (Fin 1)))))))"

text \<open>
  \<^verbatim>\<open>
    this.createUnitMesh = function (name, width, height, thickness, material) {
        var geom, mat, mesh;
        geom = new THREE.BoxGeometry(width, height, thickness);
        mat = instance.getMaterial(material);
        mesh = new THREE.Mesh(geom, mat);
        mesh.name = name;
        return mesh;
    };
  \<close>
\<close>

definition createUnitMesh ::
  "(jsval \<Rightarrow> bool) \<Rightarrow> jsval \<Rightarrow> jsval \<Rightarrow> jsval \<Rightarrow> jsval \<Rightarrow> jsval \<Rightarrow> error + volume" where
  "createUnitMesh loads nm w h thickness material =
     bindE (getMaterial loads material) (\<lambda>mat.
       Inr (Mesh nm \<lparr>width = w, height = h, depth = thickness\<rparr> mat origin))"

text \<open>\<open>a - o.p - o.q\<close>, where \<open>o\<close> is the layer's \<open>offset\<close>, in the order of evaluation.\<close>

definition trimmed :: "jsval \<Rightarrow> jsval \<Rightarrow> string \<Rightarrow> string \<Rightarrow> error + jsnum" where
  "trimmed a off p q =
     bindE (get_prop off p) (\<lambda>op.
       bindE (js_sub a op) (\<lambda>d.
         bindE (get_prop off q) (\<lambda>oq. js_sub (Num d) oq)))"

section \<open>Grid tiling\<close>

text \<open>
  The body of the inner loop of \<open>createUnitizedMesh\<close>, for row \<open>i\<close> and column \<open>j\<close>;
  \<open>unit_mesh\<close> is its call of \<open>createUnitMesh\<close>.
  \<^verbatim>\<open>
    unit = instance.createUnitMesh(obj.name,
        obj.width - obj.offset.left - obj.offset.right,
        obj.height - obj.offset.top - obj.offset.bottom,
        obj.thickness - obj.offset.front - obj.offset.back,
        obj.material);
    unit.position.x = j * obj.width;
    unit.position.y = i * obj.height;
    geom.add(unit);
  \<close>
\<close>

definition unit_mesh :: "(jsval \<Rightarrow> bool) \<Rightarrow> obj \<Rightarrow> error + volume" where
  "unit_mesh loads ob =
     bindE (trimmed (lookup ob ''width'') (lookup ob ''offset'') ''left'' ''right'') (\<lambda>w.
     bindE (trimmed (lookup ob ''height'') (lookup ob ''offset'') ''top'' ''bottom'') (\<lambda>h.
     bindE (trimmed (lookup ob ''thickness'') (lookup ob ''offset'') ''front'' ''back'') (\<lambda>t.
       createUnitMesh loads (lookup ob ''name'') (Num w) (Num h) (Num t)
         (lookup ob ''material''))))"

definition grid_unit :: "(jsval \<Rightarrow> bool) \<Rightarrow> obj \<Rightarrow> nat \<Rightarrow> nat \<Rightarrow> error + volume" where
  "grid_unit loads ob i j =
     bindE (unit_mesh loads ob) (\<lambda>unit.
     bindE (js_mul (Num (Fin (of_nat j))) (lookup ob ''width'')) (\<lambda>ux.
     bindE (js_mul (Num (Fin (of_nat i))) (lookup ob ''height'')) (\<lambda>uy.
       Inr (set_position ((position unit)\<lparr>px := ux, py := uy\<rparr>) unit))))"

text \<open>
  The two loops, \<open>for (j = 0; j < cols; j++)\<close> inside \<open>for (i = 0; i < rows; i++)\<close>. The
  bounds are what \<open>Math.ceil\<close> returned and may be infinite, so a loop need not end: the
  result \<open>None\<close> is a loop that runs forever. \<open>geom\<close> is the list of units added so far.
\<close>

partial_function (option) unit_cols ::
  "(jsval \<Rightarrow> bool) \<Rightarrow> obj \<Rightarrow> jsnum \<Rightarrow> nat \<Rightarrow> nat \<Rightarrow> volume list \<Rightarrow> (error + volume list) option"
where
  "unit_cols loads ob cols i j geom =
     (if num_lt (Fin (of_nat j)) cols
      then (case grid_unit loads ob i j of
              Inl e \<Rightarrow> Some (Inl e)
            | Inr unit \<Rightarrow> unit_cols loads ob cols i (Suc j) (geom @ [unit]))
      else Some (Inr geom))"

declare unit_cols.simps [code]

partial_function (option) unit_rows ::
  "(jsval \<Rightarrow> bool) \<Rightarrow> obj \<Rightarrow> jsnum \<Rightarrow> jsnum \<Rightarrow> nat \<Rightarrow> volume list \<Rightarrow> (error + volume list) option"
where
  "unit_rows loads ob rows cols i geom =
     (if num_lt (Fin (of_nat i)) rows
      then (case unit_cols loads ob cols i 0 geom of
              None \<Rightarrow> None
            | Some (Inl e) \<Rightarrow> Some (Inl e)
            | Some (Inr geom') \<Rightarrow> unit_rows loads ob rows cols (Suc i) geom')
      else Some (Inr geom))"

declare unit_rows.simps [code]

text \<open>
  \<^verbatim>\<open>
    rows = Math.ceil(instance.options.defaultElement.height / obj.height);
    cols = Math.ceil(instance.options.defaultElement.width / obj.width);
  \<close>
\<close>

definition grid_counts :: "obj \<Rightarrow> obj \<Rightarrow> error + jsnum \<times> jsnum" where
  "grid_counts opts ob =
     bindE (get_prop (lookup opts ''defaultElement'') ''height'') (\<lambda>dh.
     bindE (js_div dh (lookup ob ''height'')) (\<lambda>r.
     bindE (get_prop (lookup opts ''defaultElement'') ''width'') (\<lambda>dw.
     bindE (js_div dw (lookup ob ''width'')) (\<lambda>c.
       Inr (num_ceil r, num_ceil c)))))"

text \<open>
  \<^verbatim>\<open>
    geom.position.set(
        -(cols * obj.width / 2) + (obj.width * 0.5),
        -(rows * obj.height / 2) + (obj.height * 0.5),
        0);
  \<close>
\<close>

definition centring :: "jsnum \<Rightarrow> jsval \<Rightarrow> error + jsnum" where
  "centring n extent =
     bindE (js_mul (Num n) extent) (\<lambda>m.
     bindE (js_mul extent (Num (Fin (1 / 2)))) (\<lambda>half.
       Inr (num_add (num_neg (num_div m (Fin 2))) half)))"

definition grid_position :: "jsnum \<Rightarrow> jsnum \<Rightarrow> obj \<Rightarrow> error + vec3" where
  "grid_position rows cols ob =
     bindE (centring cols (lookup ob ''width'')) (\<lambda>gx.
     bindE (centring rows (lookup ob ''height'')) (\<lambda>gy.
       Inr \<lparr>px = gx, py = gy, pz = Fin 0\<rparr>))"

text \<open>
  \<open>createUnitizedMesh\<close>. With the \<open>debug\<close> option it adds a bounding box helper to the
  scene, which is threaded through as the list of the scene's children; what the program
  prints on the console is not part of the embedding.
\<close>

definition createUnitizedMesh ::
  "(jsval \<Rightarrow> bool) \<Rightarrow> obj \<Rightarrow> obj \<Rightarrow> volume list \<Rightarrow> (error + volume \<times> volume list) option" where
  "createUnitizedMesh loads opts ob scene =
     (case grid_counts opts ob of
        Inl e \<Rightarrow> Some (Inl e)
      | Inr (rows, cols) \<Rightarrow>
          (case unit_rows loads ob rows cols 0 [] of
             None \<Rightarrow> None
           | Some (Inl e) \<Rightarrow> Some (Inl e)
           | Some (Inr units) \<Rightarrow>
               (case grid_position rows cols ob of
                  Inl e \<Rightarrow> Some (Inl e)
                | Inr p \<Rightarrow>
                    Some (Inr (Object3D p units,
                      if truthy (lookup opts ''debug'')
                      then scene @ [BoundingBoxHelper (Object3D p units)
                                      (Num (Fin 16711680)) origin]
                      else scene)))))"

section \<open>Materialising a layer\<close>

text \<open>
  \<open>buildLayer\<close> returns the mesh, or \<open>undefined\<close> (here \<open>None\<close>) for a frame, whose branch
  is empty. \<open>buildLayer_each\<close> is the first \<open>forEach\<close> of the array branch, which collects
  the members; \<open>present\<close> is the second, which adds those that are not \<open>undefined\<close>.
\<close>

fun present :: "volume option list \<Rightarrow> volume list" where
  "present [] = []"
| "present (None # members) = present members"
| "present (Some member # members) = member # present members"

fun buildLayer ::
    "(jsval \<Rightarrow> bool) \<Rightarrow> obj \<Rightarrow> layer \<Rightarrow> volume list \<Rightarrow> (error + volume option \<times> volume list) option"
  and buildLayer_each ::
    "(jsval \<Rightarrow> bool) \<Rightarrow> obj \<Rightarrow> layer list \<Rightarrow> volume list \<Rightarrow>
       (error + volume option list \<times> volume list) option" where
  "buildLayer loads opts (Composite subassemblies) scene =
     (case buildLayer_each loads opts subassemblies scene of
        None \<Rightarrow> None
      | Some (Inl e) \<Rightarrow> Some (Inl e)
      | Some (Inr (members, scene')) \<Rightarrow>
          Some (Inr (Some (Object3D origin (present members)), scene')))"
| "buildLayer loads opts (Element la) scene =
     (if lookup la ''type'' = Str ''unit'' then
        (case createUnitizedMesh loads opts la scene of
           None \<Rightarrow> None
         | Some (Inl e) \<Rightarrow> Some (Inl e)
         | Some (Inr (mesh, scene')) \<Rightarrow> Some (Inr (Some mesh, scene')))
      else if lookup la ''type'' = Str ''frame'' then Some (Inr (None, scene))
      else if lookup la ''type'' = Str ''void'' then
        Some (Inr (Some (Object3D origin []), scene))
      else
        (case bindE (get_prop (lookup opts ''defaultElement'') ''width'') (\<lambda>dw.
              bindE (get_prop (lookup opts ''defaultElement'') ''height'') (\<lambda>dh.
              bindE (trimmed (lookup la ''thickness'') (lookup la ''offset'')
                       ''front'' ''back'') (\<lambda>t.
                createUnitMesh loads (lookup la ''name'') dw dh (Num t)
                  (lookup la ''material'')))) of
           Inl e \<Rightarrow> Some (Inl e)
         | Inr mesh \<Rightarrow> Some (Inr (Some mesh, scene))))"
| "buildLayer_each loads opts [] scene = Some (Inr ([], scene))"
| "buildLayer_each loads opts (subassembly # rest) scene =
     (case buildLayer loads opts subassembly scene of
        None \<Rightarrow> None
      | Some (Inl e) \<Rightarrow> Some (Inl e)
      | Some (Inr (member, scene')) \<Rightarrow>
          (case buildLayer_each loads opts rest scene' of
             None \<Rightarrow> None
           | Some (Inl e) \<Rightarrow> Some (Inl e)
           | Some (Inr (members, scene'')) \<Rightarrow> Some (Inr (member # members, scene''))))"

section \<open>Stacking the layers\<close>

text \<open>
  The thickness of a layer, as \<open>build\<close> determines it:
  \<^verbatim>\<open>
    if (Array.isArray(layer)) {
        // get the thickest element in the list
        thickness = layer.reduce(function (last, current) {
            return (last < current.thickness) ? current.thickness : last;
        }, 0);
    } else {
        thickness = layer.thickness;
    }
    // if the thickness is 1mm or less, then set it to the minimum
    // allowed thickness
    thickness = (thickness < 5) ? 5 : thickness;
  \<close>
  A member of a composite that is itself an array has no \<open>thickness\<close> property.
\<close>

fun member_thickness :: "layer \<Rightarrow> jsval" where
  "member_thickness (Element current) = lookup current ''thickness''"
| "member_thickness (Composite members) = Undefined"

fun thickest :: "layer list \<Rightarrow> jsval \<Rightarrow> error + jsval" where
  "thickest [] last' = Inr last'"
| "thickest (current # rest) last' =
     bindE (js_lt last' (member_thickness current)) (\<lambda>b.
       thickest rest (if b then member_thickness current else last'))"

definition declared_thickness :: "layer \<Rightarrow> error + jsval" where
  "declared_thickness la =
     (case la of
        Composite members \<Rightarrow> thickest members (Num (Fin 0))
      | Element ob \<Rightarrow> Inr (lookup ob ''thickness''))"

definition effectiveThickness :: "layer \<Rightarrow> error + jsval" where
  "effectiveThickness la =
     bindE (declared_thickness la) (\<lambda>thickness.
       bindE (js_lt thickness (Num (Fin 5))) (\<lambda>b.
         Inr (if b then Num (Fin 5) else thickness)))"

text \<open>
  The state of a \<open>Section\<close> that \<open>build\<close> reads and writes: the model, the options, and
  the children of the scene.
\<close>

record section_state =
  s_model :: layer
  s_options :: obj
  s_scene :: "volume list"

text \<open>
  The \<open>forEach\<close> of \<open>build\<close> over the layers. The state of the loop is the list of the
  group's members, \<open>totalThickness\<close> and the scene.
  \<^verbatim>\<open>
    mesh = instance.buildLayer(layer);
    mesh.position.set(0, 0, totalThickness + (thickness / 2));
    group.add(mesh);
    // update the total thickness
    totalThickness += thickness || 0;
  \<close>
  \<open>mesh.position\<close> throws when \<open>buildLayer\<close> returned \<open>undefined\<close>.
\<close>

fun stack_layers ::
  "(jsval \<Rightarrow> bool) \<Rightarrow> obj \<Rightarrow> layer list \<Rightarrow> volume list \<times> jsnum \<times> volume list \<Rightarrow>
     (error + volume list \<times> jsnum \<times> volume list) option" where
  "stack_layers loads opts [] st = Some (Inr st)"
| "stack_layers loads opts (la # rest) (members, totalThickness, sc) =
     (case effectiveThickness la of
        Inl e \<Rightarrow> Some (Inl e)
      | Inr thickness \<Rightarrow>
          (case buildLayer loads opts la sc of
             None \<Rightarrow> None
           | Some (Inl e) \<Rightarrow> Some (Inl e)
           | Some (Inr (None, sc')) \<Rightarrow> Some (Inl TypeError)
           | Some (Inr (Some mesh, sc')) \<Rightarrow>
               (case bindE (js_div thickness (Num (Fin 2))) (\<lambda>half.
                     bindE (js_add (Num totalThickness) (js_or thickness (Num (Fin 0))))
                       (\<lambda>total'. Inr (half, total'))) of
                  Inl e \<Rightarrow> Some (Inl e)
                | Inr (half, total') \<Rightarrow>
                    stack_layers loads opts rest
                      (members @ [set_position
                                  \<lparr>px = Fin 0, py = Fin 0, pz = num_add totalThickness half\<rparr>
                                  mesh],
                       total', sc'))))"

text \<open>
  \<open>build\<close>. It returns nothing: its results are the model with the defaults applied and
  the group added to the scene. A model that is not an array has no \<open>forEach\<close>. The state
  that a run which throws leaves behind is not part of the embedding.
\<close>

definition build :: "(jsval \<Rightarrow> bool) \<Rightarrow> section_state \<Rightarrow> (error + section_state) option" where
  "build loads s =
     (case applyModelDefaults (s_model s) (lookup (s_options s) ''defaultElement'') of
        Inl e \<Rightarrow> Some (Inl e)
      | Inr (Element ob) \<Rightarrow> Some (Inl TypeError)
      | Inr (Composite layers) \<Rightarrow>
          (case stack_layers loads (s_options s) layers ([], Fin 0, s_scene s) of
             None \<Rightarrow> None
           | Some (Inl e) \<Rightarrow> Some (Inl e)
           | Some (Inr (members, totalThickness, sc')) \<Rightarrow>
               Some (Inr (s\<lparr>s_model := Composite layers,
                             s_scene := sc' @ [Object3D origin members]\<rparr>))))"

section \<open>Notions used to state the properties\<close>

text \<open>The elements of a model: the leaves of the tree, in order.\<close>

fun elements :: "layer \<Rightarrow> obj list" where
  "elements (Element e) = [e]"
| "elements (Composite members) = concat (map elements members)"

text \<open>
  Two models have the same shape, and their elements at the same place are related by
  \<open>R\<close>.
\<close>

fun same_shape :: "(obj \<Rightarrow> obj \<Rightarrow> bool) \<Rightarrow> layer \<Rightarrow> layer \<Rightarrow> bool" where
  "same_shape R (Element a) (Element b) = R a b"
| "same_shape R (Composite ms) (Composite ns) = list_all2 (same_shape R) ms ns"
| "same_shape R _ _ = False"

text \<open>
  The element \<open>e'\<close> is \<open>e\<close> with the defaults \<open>d\<close> filled in: its keys are those of \<open>e\<close> and
  those of \<open>d\<close>, a field of \<open>e\<close> has kept its value, and every other key of \<open>d\<close> has the
  value it has in \<open>d\<close>.
\<close>

definition resolved :: "obj \<Rightarrow> obj \<Rightarrow> obj \<Rightarrow> bool" where
  "resolved d e e' =
     ((\<forall>k. hasOwnProperty e' k = (hasOwnProperty e k \<or> hasOwnProperty d k))
      \<and> (\<forall>k. lookup e' k = (if hasOwnProperty e k then lookup e k else lookup d k)))"


text \<open>
  The numbers among the \<open>thickness\<close> fields of the direct members of a composite. A
  member that is itself a composite has no such field.
\<close>

fun direct_thicknesses :: "layer list \<Rightarrow> rat list" where
  "direct_thicknesses [] = []"
| "direct_thicknesses (m # ms) =
     (case member_thickness m of
        Num (Fin t) \<Rightarrow> t # direct_thicknesses ms
      | _ \<Rightarrow> direct_thicknesses ms)"

text \<open>A library in which every texture loads.\<close>

definition loads_all :: "jsval \<Rightarrow> bool" where
  "loads_all url = True"




definition unit_centre :: "vec3 \<Rightarrow> volume \<Rightarrow> jsnum \<times> jsnum" where
  "unit_centre g c = (num_add (px g) (px (position c)), num_add (py g) (py (position c)))"

section \<open>Records: basic facts\<close>

lemma lookup_update:
  "lookup (AList.update k v al) k' = (if k' = k then v else lookup al k')"
  by (simp add: lookup_def update_conv')

lemma hasOwnProperty_update:
  "hasOwnProperty (AList.update k v al) k' = (k' = k \<or> hasOwnProperty al k')"
  by (auto simp: hasOwnProperty_def dom_update)

lemma lookup_absent: "\<not> hasOwnProperty al k \<Longrightarrow> lookup al k = Undefined"
  using map_of_eq_None_iff [of al k] by (simp add: hasOwnProperty_def lookup_def)

section \<open>Overriding the options\<close>

lemma override_keys_Obj:
  "\<exists>acc'. override_keys (Obj kv) keys acc = Inr acc'
     \<and> (\<forall>k. lookup acc' k = (if k \<in> set keys then lookup kv k else lookup acc k))
     \<and> (\<forall>k. hasOwnProperty acc' k = (k \<in> set keys \<or> hasOwnProperty acc k))"
proof (induction keys arbitrary: acc)
  case Nil
  show ?case by simp
next
  case (Cons key keys)
  obtain acc' where *:
    "override_keys (Obj kv) keys (AList.update key (lookup kv key) acc) = Inr acc'"
    "\<forall>k. lookup acc' k = (if k \<in> set keys then lookup kv k
          else lookup (AList.update key (lookup kv key) acc) k)"
    "\<forall>k. hasOwnProperty acc' k =
          (k \<in> set keys \<or> hasOwnProperty (AList.update key (lookup kv key) acc) k)"
    using Cons.IH by blast
  show ?case
    using * by (auto simp: lookup_update hasOwnProperty_update)
qed

text \<open>
  Claim C10. Overriding the options is shallow: the options of an instance constructed
  with the record \<open>supplied\<close> hold, under every top-level key of \<open>supplied\<close>, the supplied
  value as it is (nothing of the built-in value is kept or merged into it), and under
  every other key the built-in value; no other key appears. So a supplied
  \<open>defaultElement\<close> replaces the built-in one whole, and the fields it does not restate
  (\<open>thickness\<close>, \<open>offset\<close>, \<open>type\<close>, ...) are gone.
\<close>

theorem options_override_shallow:
  "\<exists>opts. override_options (Obj supplied) = Inr opts
     \<and> (\<forall>k. lookup opts k =
            (if hasOwnProperty supplied k then lookup supplied k else lookup builtin_options k))
     \<and> (\<forall>k. hasOwnProperty opts k =
            (hasOwnProperty supplied k \<or> hasOwnProperty builtin_options k))"
  using override_keys_Obj [of supplied "map fst supplied" builtin_options]
  by (simp add: override_options_def hasOwnProperty_def)

text \<open>
  A caller who passes \<open>{defaultElement: {width: 100}}\<close>: the default element is that
  record alone, without \<open>thickness\<close>, \<open>offset\<close> or \<open>type\<close>, and \<open>fps\<close> is still 30.
\<close>

theorem options_override_shallow_witness:
  "\<exists>opts. override_options (Obj [(''defaultElement'', Obj [(''width'', Num (Fin 100))])]) = Inr opts
     \<and> lookup opts ''defaultElement'' = Obj [(''width'', Num (Fin 100))]
     \<and> get_prop (lookup opts ''defaultElement'') ''thickness'' = Inr Undefined
     \<and> get_prop (lookup opts ''defaultElement'') ''offset'' = Inr Undefined
     \<and> get_prop (lookup opts ''defaultElement'') ''type'' = Inr Undefined
     \<and> lookup opts ''fps'' = Num (Fin 30)"
  using options_override_shallow [of "[(''defaultElement'', Obj [(''width'', Num (Fin 100))])]"]
  by (auto simp: hasOwnProperty_def lookup_def builtin_options_def)

section \<open>Default resolution\<close>

lemma bindE_Inr: "bindE m f = Inr y \<longleftrightarrow> (\<exists>v. m = Inr v \<and> f v = Inr y)"
  by (cases m) auto

lemma element_defaults_Inr:
  "element_defaults (Obj d) keys e = Inr e' \<Longrightarrow>
     (\<forall>k. hasOwnProperty e' k = (hasOwnProperty e k \<or> k \<in> set keys))
     \<and> (\<forall>k. lookup e' k = (if hasOwnProperty e k then lookup e k
                            else if k \<in> set keys then lookup d k else Undefined))"
proof (induction keys arbitrary: e)
  case Nil
  then show ?case by (auto simp: lookup_absent)
next
  case (Cons key keys)
  show ?case
  proof (cases "hasOwnProperty e key")
    case True
    with Cons.prems have "element_defaults (Obj d) keys e = Inr e'"
      by (simp split: if_splits)
    from Cons.IH [OF this] True show ?thesis by auto
  next
    case False
    with Cons.prems
    have "element_defaults (Obj d) keys (AList.update key (lookup d key) e) = Inr e'"
      by (simp split: if_splits)
    from Cons.IH [OF this] False show ?thesis
      by (auto simp: hasOwnProperty_update lookup_update)
  qed
qed

lemma element_defaults_returns:
  "\<not> hasOwnProperty e ''hasOwnProperty'' \<Longrightarrow> ''hasOwnProperty'' \<notin> set keys \<Longrightarrow>
     \<exists>e'. element_defaults (Obj d) keys e = Inr e'"
proof (induction keys arbitrary: e)
  case Nil
  show ?case by simp
next
  case (Cons key keys)
  then show ?case by (auto simp: hasOwnProperty_update)
qed

lemma resolved_element:
  assumes "element_defaults (Obj d) (map fst d) e = Inr e'"
  shows "resolved d e e'"
proof -
  have "\<not> hasOwnProperty d k \<Longrightarrow> lookup d k = Undefined" for k
    by (rule lookup_absent)
  with element_defaults_Inr [OF assms] show ?thesis
    by (auto simp: resolved_def hasOwnProperty_def)
qed

lemma applyModelDefaults_resolved:
  "applyModelDefaults m defaults = Inr m' \<Longrightarrow> defaults = Obj d \<Longrightarrow>
     same_shape (resolved d) m m'"
  "applyModelDefaults_each ms defaults = Inr ms' \<Longrightarrow> defaults = Obj d \<Longrightarrow>
     list_all2 (same_shape (resolved d)) ms ms'"
proof (induction m defaults and ms defaults arbitrary: m' and ms'
    rule: applyModelDefaults_applyModelDefaults_each.induct)
  case (1 members defaults)
  then show ?case by (auto simp: bindE_Inr)
next
  case (2 model defaults)
  then show ?case by (auto simp: bindE_Inr resolved_element)
next
  case (3 defaults)
  then show ?case by simp
next
  case (4 element rest defaults)
  then show ?case by (auto simp: bindE_Inr)
qed

lemma applyModelDefaults_returns:
  "defaults = Obj d \<Longrightarrow> \<not> hasOwnProperty d ''hasOwnProperty'' \<Longrightarrow>
     \<forall>e \<in> set (elements m). \<not> hasOwnProperty e ''hasOwnProperty'' \<Longrightarrow>
     \<exists>m'. applyModelDefaults m defaults = Inr m'"
  "defaults = Obj d \<Longrightarrow> \<not> hasOwnProperty d ''hasOwnProperty'' \<Longrightarrow>
     \<forall>m \<in> set ms. \<forall>e \<in> set (elements m). \<not> hasOwnProperty e ''hasOwnProperty'' \<Longrightarrow>
     \<exists>ms'. applyModelDefaults_each ms defaults = Inr ms'"
proof (induction m defaults and ms defaults
    rule: applyModelDefaults_applyModelDefaults_each.induct)
  case (1 members defaults)
  then show ?case by fastforce
next
  case (2 model defaults)
  then have "\<exists>e'. element_defaults (Obj d) (map fst d) model = Inr e'"
    by (intro element_defaults_returns) (auto simp: hasOwnProperty_def)
  with 2 show ?case by auto
next
  case (3 defaults)
  then show ?case by simp
next
  case (4 element rest defaults)
  then show ?case by fastforce
qed

text \<open>
  Claim C4. For every model \<open>m\<close>, however its composites are nested, and every defaults
  record \<open>d\<close>: the model that \<open>applyModelDefaults\<close> leaves behind has the shape of \<open>m\<close>,
  and each of its elements has every key of \<open>d\<close>, with the value of \<open>d\<close> where the element
  had no such field and with the element's own value where it had one (the test is made
  field by field). Default resolution returns whenever no element and no default
  shadows the method \<open>hasOwnProperty\<close> with a field of that name.
\<close>

theorem default_completeness:
  "(\<forall>m'. applyModelDefaults m (Obj d) = Inr m' \<longrightarrow> same_shape (resolved d) m m')
   \<and> (\<not> hasOwnProperty d ''hasOwnProperty''
        \<and> (\<forall>e \<in> set (elements m). \<not> hasOwnProperty e ''hasOwnProperty'')
      \<longrightarrow> (\<exists>m'. applyModelDefaults m (Obj d) = Inr m'))"
  using applyModelDefaults_resolved(1) [of m "Obj d" _ d]
    applyModelDefaults_returns(1) [of "Obj d" d m]
  by blast

text \<open>
  The model \<open>[{thickness: 2}, [{}]]\<close> with the built-in default element: the first
  element keeps its thickness 2, the nested one gets the default 10.
\<close>

theorem default_completeness_witness:
  "\<exists>m'. applyModelDefaults
           (Composite [Element [(''thickness'', Num (Fin 2))], Composite [Element []]])
           (Obj builtin_defaultElement) = Inr m'
     \<and> same_shape (resolved builtin_defaultElement)
           (Composite [Element [(''thickness'', Num (Fin 2))], Composite [Element []]]) m'
     \<and> map (\<lambda>e. lookup e ''thickness'') (elements m') = [Num (Fin 2), Num (Fin 10)]
     \<and> map (\<lambda>e. lookup e ''type'') (elements m') = [Str ''sheet'', Str ''sheet'']"
proof -
  let ?m = "Composite [Element [(''thickness'', Num (Fin 2))], Composite [Element []]]"
  obtain m' where m': "applyModelDefaults ?m (Obj builtin_defaultElement) = Inr m'"
    by (simp add: builtin_defaultElement_def hasOwnProperty_def)
  then have "same_shape (resolved builtin_defaultElement) ?m m'"
    using default_completeness [of ?m builtin_defaultElement] by blast
  moreover from m'
  have "map (\<lambda>e. lookup e ''thickness'') (elements m') = [Num (Fin 2), Num (Fin 10)]"
    and "map (\<lambda>e. lookup e ''type'') (elements m') = [Str ''sheet'', Str ''sheet'']"
    by (auto simp: builtin_defaultElement_def hasOwnProperty_def lookup_def)
  ultimately show ?thesis using m' by (intro exI [of _ m']) simp
qed

section \<open>The thickness of a layer\<close>

lemma thickest_fold:
  "\<forall>m \<in> set ms. member_thickness m = Undefined \<or> (\<exists>t. member_thickness m = Num (Fin t)) \<Longrightarrow>
     thickest ms (Num (Fin a)) = Inr (Num (Fin (fold max (direct_thicknesses ms) a)))"
proof (induction ms arbitrary: a)
  case Nil
  show ?case by simp
next
  case (Cons m ms)
  from Cons.prems consider "member_thickness m = Undefined"
    | t where "member_thickness m = Num (Fin t)" by auto
  then show ?case
  proof cases
    case 1
    with Cons show ?thesis by (simp add: js_lt_def)
  next
    case (2 t)
    with Cons show ?thesis by (simp add: js_lt_def max_def)
  qed
qed

lemma max_fold_max: "max (b::rat) (fold max ts a) = fold max ts (max b a)"
  by (induction ts arbitrary: a) (simp_all add: max.left_commute)

text \<open>
  Claim C5. The effective thickness of a composite whose direct members have a number as
  \<open>thickness\<close>, or none (as a nested composite has none), is the greatest of these
  numbers and of the floor 5. Only the \<open>thickness\<close> fields of the direct members count:
  nothing is computed recursively.
\<close>

theorem composite_thickness:
  assumes "\<forall>m \<in> set ms. member_thickness m = Undefined \<or> (\<exists>t. member_thickness m = Num (Fin t))"
  shows "effectiveThickness (Composite ms) =
           Inr (Num (Fin (Max (set (5 # direct_thicknesses ms)))))"
proof -
  let ?ts = "direct_thicknesses ms"
  have "effectiveThickness (Composite ms) = Inr (Num (Fin (max 5 (fold max ?ts 0))))"
    using thickest_fold [OF assms, of 0]
    by (simp add: effectiveThickness_def declared_thickness_def js_lt_def max_def)
  also have "max 5 (fold max ?ts 0) = fold max ?ts (5::rat)"
    by (simp add: max_fold_max)
  also have "\<dots> = Max (set (5 # ?ts))"
    by (simp only: Max.set_eq_fold)
  finally show ?thesis .
qed

text \<open>
  A composite of two elements of thickness 3 and 8 has effective thickness 8. A nested
  composite of thickness 20 beside an element of thickness 3 does not count: 5.
\<close>

theorem composite_thickness_witness:
  "effectiveThickness (Composite [Element [(''thickness'', Num (Fin 3))],
                                  Element [(''thickness'', Num (Fin 8))]]) = Inr (Num (Fin 8))
   \<and> effectiveThickness (Composite [Composite [Element [(''thickness'', Num (Fin 20))]],
                                  Element [(''thickness'', Num (Fin 3))]]) = Inr (Num (Fin 5))"
  using composite_thickness [of "[Element [(''thickness'', Num (Fin 3))],
                                  Element [(''thickness'', Num (Fin 8))]]"]
    composite_thickness [of "[Composite [Element [(''thickness'', Num (Fin 20))]],
                                  Element [(''thickness'', Num (Fin 3))]]"]
  by (simp add: lookup_def)









section \<open>Materialising a layer: properties\<close>

text \<open>
  Claim C6. A layer whose type is none of \<open>unit\<close>, \<open>frame\<close>, \<open>void\<close> (the sheet, which is the
  default case of the dispatch) is materialised as one box: its width and height are
  those of the default element, whatever the layer's own \<open>width\<close> and \<open>height\<close> are, and
  its depth is \<open>layer.thickness - layer.offset.front - layer.offset.back\<close>. This is what
  \<open>buildLayer\<close> returns whenever the default element and the layer's offset can be read,
  the three numbers can be converted and the material is resolved.
\<close>

theorem sheet_materialization:
  assumes "lookup la ''type'' \<noteq> Str ''unit''" "lookup la ''type'' \<noteq> Str ''frame''"
      "lookup la ''type'' \<noteq> Str ''void''"
    and "get_prop (lookup opts ''defaultElement'') ''width'' = Inr dw"
    and "get_prop (lookup opts ''defaultElement'') ''height'' = Inr dh"
    and "get_prop (lookup la ''offset'') ''front'' = Inr front"
    and "get_prop (lookup la ''offset'') ''back'' = Inr back"
    and "to_number (lookup la ''thickness'') = Inr t"
    and "to_number front = Inr f" and "to_number back = Inr b"
    and "getMaterial loads (lookup la ''material'') = Inr mat"
  shows "buildLayer loads opts (Element la) sc =
      Some (Inr (Some (Mesh (lookup la ''name'')
                         \<lparr>width = dw, height = dh, depth = Num (num_sub (num_sub t f) b)\<rparr>
                         mat origin), sc))"
  using assms by (simp add: trimmed_def createUnitMesh_def js_arith_def)

text \<open>
  A sheet of width 100, height 80 and thickness 12 with offsets 1 and 2, under the
  built-in options: a box of 500 by 500 by 9.
\<close>

theorem sheet_materialization_witness:
  "buildLayer loads_all builtin_options
     (Element
       [(''name'', Str ''plaster''), (''width'', Num (Fin 100)), (''height'', Num (Fin 80)),
        (''thickness'', Num (Fin 12)), (''type'', Str ''sheet''),
        (''offset'', Obj [(''front'', Num (Fin 1)), (''back'', Num (Fin 2))]),
        (''material'', Obj [(''color'', Num (Fin 255))])]) [] =
   Some (Inr (Some (Mesh (Str ''plaster'')
                      \<lparr>width = Num (Fin 500), height = Num (Fin 500), depth = Num (Fin 9)\<rparr>
                      (MeshLambertMaterial (Num (Fin 255)) True (Num (Fin 1))) origin), []))"
  using sheet_materialization [of
      "[(''name'', Str ''plaster''), (''width'', Num (Fin 100)), (''height'', Num (Fin 80)),
        (''thickness'', Num (Fin 12)), (''type'', Str ''sheet''),
        (''offset'', Obj [(''front'', Num (Fin 1)), (''back'', Num (Fin 2))]),
        (''material'', Obj [(''color'', Num (Fin 255))])]"
      builtin_options "Num (Fin 500)" "Num (Fin 500)" "Num (Fin 1)" "Num (Fin 2)"
      "Fin 12" "Fin 1" "Fin 2" loads_all "MeshLambertMaterial (Num (Fin 255)) True (Num (Fin 1))" "[]"]
  by (simp add: lookup_def builtin_options_def builtin_defaultElement_def getMaterial_def
      js_or_def num_sub_def)

text \<open>
  A frame yields no mesh; the array branch leaves it out of the group.
\<close>

lemma buildLayer_each_frame:
  assumes "lookup la ''type'' = Str ''frame''"
  shows "(case buildLayer_each loads opts (xs @ Element la # ys) sc of
            None \<Rightarrow> None
          | Some (Inl e) \<Rightarrow> Some (Inl e)
          | Some (Inr (members, sc')) \<Rightarrow> Some (Inr (present members, sc')))
       = (case buildLayer_each loads opts (xs @ ys) sc of
            None \<Rightarrow> None
          | Some (Inl e) \<Rightarrow> Some (Inl e)
          | Some (Inr (members, sc')) \<Rightarrow> Some (Inr (present members, sc')))"
proof (induction xs arbitrary: sc)
  case Nil
  show ?case
    using assms by (simp split: option.splits sum.splits prod.splits)
next
  case (Cons x xs)
  show ?case
  proof (cases "buildLayer loads opts x sc")
    case None
    then show ?thesis by simp
  next
    case (Some r)
    show ?thesis
    proof (cases r)
      case (Inl e)
      with Some show ?thesis by simp
    next
      case (Inr p)
      obtain m sc1 where p: "p = (m, sc1)" by (cases p)
      from Cons.IH [of sc1] Some Inr p show ?thesis
        by (cases m) (auto split: option.splits sum.splits prod.splits)
    qed
  qed
qed

text \<open>
  Claim C7, as amended. For a layer of type \<open>frame\<close>, \<open>buildLayer\<close> returns no volume at all
  (\<open>undefined\<close>), and a composite with such a member is materialised as the composite
  without it. A layer whose type is none of \<open>unit\<close>, \<open>frame\<close> and \<open>void\<close>, recognised or
  not, is materialised exactly as the same layer with type \<open>sheet\<close>.
\<close>

theorem frame_and_unrecognized:
  "(lookup la ''type'' = Str ''frame'' \<longrightarrow>
      buildLayer loads opts (Element la) sc = Some (Inr (None, sc))
      \<and> buildLayer loads opts (Composite (xs @ Element la # ys)) sc
          = buildLayer loads opts (Composite (xs @ ys)) sc)
   \<and> (lookup la ''type'' \<noteq> Str ''unit'' \<and> lookup la ''type'' \<noteq> Str ''frame''
        \<and> lookup la ''type'' \<noteq> Str ''void'' \<longrightarrow>
      buildLayer loads opts (Element la) sc
        = buildLayer loads opts (Element (AList.update ''type'' (Str ''sheet'') la)) sc)"
proof (intro conjI impI)
  assume f: "lookup la ''type'' = Str ''frame''"
  then show "buildLayer loads opts (Element la) sc = Some (Inr (None, sc))" by simp
  from buildLayer_each_frame [OF f, of loads opts xs ys sc]
  show "buildLayer loads opts (Composite (xs @ Element la # ys)) sc
          = buildLayer loads opts (Composite (xs @ ys)) sc"
    by (auto split: option.splits sum.splits prod.splits)
next
  assume "lookup la ''type'' \<noteq> Str ''unit'' \<and> lookup la ''type'' \<noteq> Str ''frame''
        \<and> lookup la ''type'' \<noteq> Str ''void''"
  then show "buildLayer loads opts (Element la) sc
        = buildLayer loads opts (Element (AList.update ''type'' (Str ''sheet'') la)) sc"
    by (simp add: lookup_update)
qed

text \<open>
  A frame alone; a frame beside a void in a composite; a layer of the unknown type
  \<open>panel\<close>.
\<close>

theorem frame_and_unrecognized_witness:
  "buildLayer loads_all builtin_options (Element [(''type'', Str ''frame'')]) []
     = Some (Inr (None, []))
   \<and> buildLayer loads_all builtin_options
        (Composite [Element [(''type'', Str ''void'')], Element [(''type'', Str ''frame'')]]) []
     = Some (Inr (Some (Object3D origin [Object3D origin []]), []))
   \<and> buildLayer loads_all builtin_options
        (Element [(''type'', Str ''panel''), (''thickness'', Num (Fin 12)),
                  (''offset'', Obj []), (''material'', Obj [(''color'', Num (Fin 255))])]) []
     = buildLayer loads_all builtin_options
        (Element [(''type'', Str ''sheet''), (''thickness'', Num (Fin 12)),
                  (''offset'', Obj []), (''material'', Obj [(''color'', Num (Fin 255))])]) []"
  using frame_and_unrecognized [of "[(''type'', Str ''frame'')]" loads_all builtin_options "[]"
      "[Element [(''type'', Str ''void'')]]" "[]"]
    frame_and_unrecognized [of "[(''type'', Str ''panel''), (''thickness'', Num (Fin 12)),
                  (''offset'', Obj []), (''material'', Obj [(''color'', Num (Fin 255))])]"
      loads_all builtin_options "[]"]
  by (simp add: lookup_def)

text \<open>
  Claim C7 as stated fails: a layer of the unrecognised type \<open>panel\<close> is not materialised as
  an empty volume, but as a solid box of 500 by 500 by 12, as a sheet is.
\<close>

theorem frame_and_unrecognized_counterexample:
  "buildLayer loads_all builtin_options
     (Element [(''type'', Str ''panel''), (''thickness'', Num (Fin 12)),
               (''offset'', Obj [(''front'', Num (Fin 0)), (''back'', Num (Fin 0))]),
               (''material'', Obj [(''color'', Num (Fin 255))])]) []
   = Some (Inr (Some (Mesh Undefined
                        \<lparr>width = Num (Fin 500), height = Num (Fin 500), depth = Num (Fin 12)\<rparr>
                        (MeshLambertMaterial (Num (Fin 255)) True (Num (Fin 1))) origin), []))"
  by (simp add: lookup_def builtin_options_def builtin_defaultElement_def getMaterial_def
      js_or_def num_sub_def trimmed_def createUnitMesh_def js_arith_def)

text \<open>
  A frame as a top-level layer: \<open>build\<close> reads \<open>mesh.position\<close> of the \<open>undefined\<close> that
  \<open>buildLayer\<close> returned, and throws.
\<close>

lemma frame_layer_aborts_build:
  "build loads \<lparr>s_model = Composite [Element [(''type'', Str ''frame'')]],
                 s_options = builtin_options, s_scene = []\<rparr> = Some (Inl TypeError)"
  by (simp add: build_def lookup_def builtin_options_def builtin_defaultElement_def
      hasOwnProperty_def effectiveThickness_def declared_thickness_def js_lt_def)

text \<open>
  Claim C8, on the code: \<open>getMaterial\<close> is given the material as it stands in the layer,
  and for \<open>null\<close> it reads \<open>material.color\<close> and throws. The built-in default element has
  \<open>material: null\<close>, so with the built-in options the model \<open>[{}]\<close> makes \<open>build\<close> throw.
\<close>

theorem null_material_dereferenced:
  "getMaterial loads Null = Inl TypeError
   \<and> createUnitMesh loads nm w h t Null = Inl TypeError
   \<and> build loads \<lparr>s_model = Composite [Element []], s_options = builtin_options,
                    s_scene = []\<rparr> = Some (Inl TypeError)"
  by (simp add: getMaterial_def createUnitMesh_def build_def lookup_def builtin_options_def
      builtin_defaultElement_def hasOwnProperty_def effectiveThickness_def
      declared_thickness_def js_lt_def trimmed_def js_arith_def num_sub_def)

section \<open>Stacking: properties\<close>









section \<open>Grid tiling: properties\<close>















text \<open>
  This is the group as \<open>createUnitizedMesh\<close> returns it, and as it stands inside a
  composite. For a unit layer that is itself a layer of the model, \<open>build\<close> then sets the
  position of the group to \<open>(0, 0, z)\<close>, which replaces the translation: in the scene the
  four units of the example are centred at \<open>x, y \<in> {0, 250}\<close>.
\<close>

lemma build_replaces_grid_translation:
  "\<exists>s' units.
     build loads_all
       \<lparr>s_model = Composite
          [Element [(''type'', Str ''unit''), (''height'', Num (Fin 250)),
                    (''width'', Num (Fin 250)),
                    (''material'', Obj [(''color'', Num (Fin 255))])]],
        s_options = builtin_options, s_scene = []\<rparr> = Some (Inr s')
     \<and> s_scene s' =
         [Object3D origin [Object3D \<lparr>px = Fin 0, py = Fin 0, pz = Fin 5\<rparr> units]]
     \<and> map (unit_centre \<lparr>px = Fin 0, py = Fin 0, pz = Fin 5\<rparr>) units =
         [(Fin 0, Fin 0), (Fin 250, Fin 0), (Fin 0, Fin 250), (Fin 250, Fin 250)]"
  by (simp add: build_def lookup_def builtin_options_def builtin_defaultElement_def
      hasOwnProperty_def effectiveThickness_def declared_thickness_def js_lt_def
      createUnitizedMesh_def grid_counts_def grid_position_def centring_def grid_unit_def
      unit_mesh_def trimmed_def createUnitMesh_def getMaterial_def js_arith_def num_sub_def
      js_or_def unit_rows.simps unit_cols.simps unit_centre_def origin_def)

section \<open>Grid tiling with a size that is zero or missing\<close>
















end
